theory Spec2Isabelle
  imports Main "HOL-Library.Word"
begin

section \<open>Python values, exceptions and effects\<close>

text \<open>
  The agent (\<^verbatim>\<open>rewst_remote_agent.py\<close>) handles values produced by \<^verbatim>\<open>json.loads\<close>:
  \<^verbatim>\<open>None\<close>, booleans, integers, floats, strings, lists and dictionaries with string keys.
  A float is kept as its IEEE-754 binary64 bit pattern; the agent never computes with one.
  A dictionary is an association list in insertion order.
\<close>

type_synonym pyfloat = "64 word"

datatype json =
    JNull
  | JBool bool
  | JInt int
  | JFloat pyfloat
  | JString string
  | JArray "json list"
  | JObject "(string \<times> json) list"

text \<open>The exceptions the modelled functions raise.\<close>

datatype error =
    JSONDecodeError string
  | RecursionError
  | ValueError
  | TypeError
  | AttributeError
  | NameError string
  | ProcessError
  | TransportError

text \<open>
  What a task does to the outside: it starts a child process through the shell, sends a
  message over the IoT Hub client, posts to an HTTP endpoint, or sleeps.
\<close>

datatype event =
    Spawn string
  | Send string
  | HttpPost string json
  | Sleep nat

text \<open>
  A coroutine either returns a value or raises; the effects performed before the raise
  have happened all the same.
\<close>

type_synonym 'a result = "event list \<times> (error + 'a)"

definition bind_result :: "'a result \<Rightarrow> ('a \<Rightarrow> 'b result) \<Rightarrow> 'b result" where
  "bind_result m f =
     (case m of
        (evs, Inl e) \<Rightarrow> (evs, Inl e)
      | (evs, Inr x) \<Rightarrow> (case f x of (evs', r) \<Rightarrow> (evs @ evs', r)))"

text \<open>
  Everything the agent takes from its surroundings: the module-level \<^verbatim>\<open>os_type\<close>
  (\<^verbatim>\<open>platform.system()\<close>), the library functions \<^verbatim>\<open>json.loads\<close> (\<open>Inl\<close> is the
  exception it raises: a \<^verbatim>\<open>JSONDecodeError\<close> with its text for input that is not JSON, a
  \<^verbatim>\<open>RecursionError\<close> for nesting too deep, a \<^verbatim>\<open>ValueError\<close> for an integer with too many
  digits), \<^verbatim>\<open>json.dumps\<close> and \<^verbatim>\<open>str\<close>, the text that formatting
  a module-level object gives, the standard output of a shell command (\<open>Inl\<close> when
  spawning, waiting or decoding raises), and whether \<^verbatim>\<open>device_client.send_message\<close>
  delivers a payload (\<open>False\<close>: it raises).
\<close>

record world =
  os_type :: string
  json_loads :: "string \<Rightarrow> error + json"
  json_dumps :: "json \<Rightarrow> string"
  py_str :: "json \<Rightarrow> string"
  str_of_global :: "string \<Rightarrow> string"
  shell :: "string \<Rightarrow> error + string"
  send_message :: "string \<Rightarrow> bool"

section \<open>String operations of Python used by the agent\<close>

text \<open>\<^verbatim>\<open>str.isspace\<close> on the code points below 256.\<close>

definition is_space :: "char \<Rightarrow> bool" where
  "is_space c =
     (c \<in> set [CHR 0x09, CHR 0x0A, CHR 0x0B, CHR 0x0C, CHR 0x0D, CHR 0x1C, CHR 0x1D,
                CHR 0x1E, CHR 0x1F, CHR 0x20, CHR 0x85, CHR 0xA0])"

text \<open>\<^verbatim>\<open>s.strip()\<close>\<close>

definition strip :: "string \<Rightarrow> string" where
  "strip s = rev (dropWhile is_space (rev (dropWhile is_space s)))"

text \<open>\<^verbatim>\<open>s.replace(a, b)\<close> for one-character \<open>a\<close> and \<open>b\<close>.\<close>

definition replace_char :: "char \<Rightarrow> char \<Rightarrow> string \<Rightarrow> string" where
  "replace_char a b s = map (\<lambda>c. if c = a then b else c) s"

text \<open>\<^verbatim>\<open>p in s\<close> on strings: \<open>p\<close> occurs in \<open>s\<close> as a contiguous run.\<close>

fun starts_with :: "string \<Rightarrow> string \<Rightarrow> bool" where
  "starts_with s [] = True"
| "starts_with [] (p # ps) = False"
| "starts_with (c # cs) (p # ps) = (c = p \<and> starts_with cs ps)"

fun contains :: "string \<Rightarrow> string \<Rightarrow> bool" where
  "contains [] p = (p = [])"
| "contains (c # cs) p = (starts_with (c # cs) p \<or> contains cs p)"

text \<open>Truth value of a Python object in an \<^verbatim>\<open>if\<close> or an \<^verbatim>\<open>or\<close>.\<close>

fun truthy :: "json \<Rightarrow> bool" where
  "truthy JNull = False"
| "truthy (JBool b) = b"
| "truthy (JInt i) = (i \<noteq> 0)"
| "truthy (JFloat f) = (take_bit 63 f \<noteq> 0)"
| "truthy (JString s) = (s \<noteq> [])"
| "truthy (JArray xs) = (xs \<noteq> [])"
| "truthy (JObject kvs) = (kvs \<noteq> [])"

text \<open>An optional string argument: \<^verbatim>\<open>None\<close> or a \<^verbatim>\<open>str\<close>.\<close>

definition truthy_opt :: "string option \<Rightarrow> bool" where
  "truthy_opt v = (case v of None \<Rightarrow> False | Some s \<Rightarrow> s \<noteq> [])"

text \<open>A value inside an f-string: a string stands for itself, \<^verbatim>\<open>None\<close> prints as \<^verbatim>\<open>None\<close>.\<close>

definition format_opt :: "string option \<Rightarrow> string" where
  "format_opt v = (case v of None \<Rightarrow> ''None'' | Some s \<Rightarrow> s)"

definition format_value :: "world \<Rightarrow> json \<Rightarrow> string" where
  "format_value w v = (case v of JString s \<Rightarrow> s | _ \<Rightarrow> py_str w v)"

section \<open>Interpreter resolution (\<^verbatim>\<open>execute_commands\<close>, lines 82 to 89)\<close>

definition default_interpreter :: "string \<Rightarrow> string" where
  "default_interpreter platform =
     (if platform = ''windows'' then ''powershell''
      else if platform = ''darwin'' then ''/bin/zsh''
      else ''/bin/bash'')"

text \<open>\<^verbatim>\<open>interpreter = interpreter_override or default_interpreter\<close>\<close>

definition resolve_interpreter :: "string \<Rightarrow> string option \<Rightarrow> string" where
  "resolve_interpreter platform interpreter_override =
     (case interpreter_override of
        None \<Rightarrow> default_interpreter platform
      | Some s \<Rightarrow> if s = [] then default_interpreter platform else s)"

section \<open>Command text (\<^verbatim>\<open>execute_commands\<close>, lines 93 to 109)\<close>

text \<open>Lines 95 to 98.\<close>

definition preamble :: "string option \<Rightarrow> string" where
  "preamble post_url =
     ''[Net.ServicePointManager]::SecurityProtocol = [Net.SecurityProtocolType]::Tls12''
     @ [CHR 0x0A] @ ''$post_url = '' @ [CHR 0x27] @ format_opt post_url @ [CHR 0x27, CHR 0x0A]"

text \<open>
  Lines 94 to 100. \<^verbatim>\<open>preamble + commands\<close> raises \<^verbatim>\<open>TypeError\<close> unless \<^verbatim>\<open>commands\<close> is a
  string.
\<close>

definition with_preamble :: "string \<Rightarrow> string option \<Rightarrow> json \<Rightarrow> error + json" where
  "with_preamble interpreter post_url commands =
     (if contains interpreter ''powershell''
      then (case commands of
              JString c \<Rightarrow> Inr (JString (preamble post_url @ c))
            | _ \<Rightarrow> Inl TypeError)
      else Inr commands)"

text \<open>Lines 103 to 108: the value of \<^verbatim>\<open>command\<close> after the \<^verbatim>\<open>if\<close>.\<close>

definition framed_command :: "world \<Rightarrow> string \<Rightarrow> string option \<Rightarrow> json \<Rightarrow> json" where
  "framed_command w interpreter interpreter_override commands =
     (if truthy_opt interpreter_override
      then JString (interpreter @ '' -c '' @ [CHR 0x22] @ format_value w commands @ [CHR 0x22])
      else commands)"

text \<open>
  Line 109 formats the name \<^verbatim>\<open>all_commands\<close>. The function never assigns it, so Python
  looks it up among the module's globals (and the builtins, which have no such name) when
  the line runs. These are the names the module binds, besides the double-underscore names
  that every module has: its imports, its three settings, its functions, and the two
  globals that \<^verbatim>\<open>main\<close> sets.
\<close>

definition module_globals :: "string list" where
  "module_globals =
     [''argparse'', ''asyncio'', ''httpx'', ''json'', ''logging'', ''os'', ''platform'',
      ''psutil'', ''ThreadPoolExecutor'', ''IoTHubDeviceClient'',
      ''status_update_checkin_time'', ''os_type'', ''executor'',
      ''send_status_update'', ''load_config'', ''get_connection_string'',
      ''message_handler'', ''run_handle_commands'', ''execute_commands'',
      ''handle_commands'', ''main'', ''rewst_engine_host'', ''device_client'']"

definition format_global :: "world \<Rightarrow> string \<Rightarrow> error + string" where
  "format_global w name =
     (if name \<in> set module_globals then Inr (str_of_global w name)
      else Inl (NameError name))"

text \<open>
  Lines 82 to 108 together: the value of \<^verbatim>\<open>command\<close> when line 109 is reached, or the
  exception raised before.
\<close>

definition prepare_command ::
  "world \<Rightarrow> json \<Rightarrow> string option \<Rightarrow> string option \<Rightarrow> error + json" where
  "prepare_command w commands post_url interpreter_override =
     (let interpreter = resolve_interpreter (os_type w) interpreter_override in
      case with_preamble interpreter post_url commands of
        Inl e \<Rightarrow> Inl e
      | Inr commands' \<Rightarrow> Inr (framed_command w interpreter interpreter_override commands'))"

section \<open>Running the command (\<^verbatim>\<open>execute_commands\<close>, lines 110 to 120)\<close>

definition create_subprocess_shell :: "world \<Rightarrow> string \<Rightarrow> string result" where
  "create_subprocess_shell w command =
     (case shell w command of
        Inl e \<Rightarrow> ([Spawn command], Inl e)
      | Inr stdout \<Rightarrow> ([Spawn command], Inr (strip stdout)))"

text \<open>
  \<^verbatim>\<open>execute_commands\<close> up to its \<^verbatim>\<open>return\<close> at line 120; the lines after it never run.
  Line 109 assigns \<^verbatim>\<open>command\<close> again, from \<^verbatim>\<open>all_commands\<close>, so the value of lines 103
  to 108 is not the one passed on. \<^verbatim>\<open>interpreter_delimiter\<close> is a parameter that the body
  does not mention.
\<close>

definition execute_commands ::
  "world \<Rightarrow> json \<Rightarrow> string option \<Rightarrow> string option \<Rightarrow> json \<Rightarrow> string result" where
  "execute_commands w commands post_url interpreter_override interpreter_delimiter =
     (case prepare_command w commands post_url interpreter_override of
        Inl e \<Rightarrow> ([], Inl e)
      | Inr command \<Rightarrow>
          (case format_global w ''all_commands'' of
             Inl e \<Rightarrow> ([], Inl e)
           | Inr all_commands \<Rightarrow>
               create_subprocess_shell w
                 (resolve_interpreter (os_type w) interpreter_override
                  @ '' -c '' @ [CHR 0x22] @ all_commands @ [CHR 0x22])))"

section \<open>Reporting the output (\<^verbatim>\<open>handle_commands\<close>)\<close>

text \<open>
  Lines 142 to 144: \<^verbatim>\<open>post_url\<close> is bound only when \<^verbatim>\<open>post_id\<close> is true; \<^verbatim>\<open>replace\<close> is a
  method of strings only.
\<close>

definition post_url_of :: "json \<Rightarrow> string option \<Rightarrow> error + string option" where
  "post_url_of post_id rewst_engine_host =
     (if truthy post_id
      then (case post_id of
              JString s \<Rightarrow>
                Inr (Some (''https://'' @ format_opt rewst_engine_host
                           @ ''/webhooks/custom/action/'' @ replace_char CHR '':'' CHR ''/'' s))
            | _ \<Rightarrow> Inl AttributeError)
      else Inr None)"

text \<open>
  Lines 147 to 152. The \<^verbatim>\<open>except\<close> clause names \<^verbatim>\<open>json.JSONDecodeError\<close> only: any other
  exception of \<^verbatim>\<open>json.loads\<close> is not caught.
\<close>

definition decode_output :: "world \<Rightarrow> string \<Rightarrow> error + json" where
  "decode_output w command_output =
     (case json_loads w command_output of
        Inr message_data \<Rightarrow> Inr message_data
      | Inl (JSONDecodeError e) \<Rightarrow>
          Inr (JObject
                 [(''error'', JString (''Error decoding command output as JSON: '' @ e)),
                  (''output'', JString command_output)])
      | Inl other \<Rightarrow> Inl other)"

text \<open>Lines 147 to 156.\<close>

definition send_output :: "world \<Rightarrow> string \<Rightarrow> unit result" where
  "send_output w command_output =
     (case decode_output w command_output of
        Inl e \<Rightarrow> ([], Inl e)
      | Inr message_data \<Rightarrow>
          (let message_json = json_dumps w message_data in
           if send_message w message_json then ([Send message_json], Inr ())
           else ([], Inl TransportError)))"

text \<open>
  Lines 142 to 146: the arguments with which \<^verbatim>\<open>handle_commands\<close> calls
  \<^verbatim>\<open>execute_commands\<close>. Line 146 passes \<^verbatim>\<open>rewst_engine_host\<close> in the position of
  \<^verbatim>\<open>post_url\<close>; the \<^verbatim>\<open>post_url\<close> of line 144 is not read again.
\<close>

definition execute_call ::
  "json \<Rightarrow> json \<Rightarrow> string option \<Rightarrow> string option \<Rightarrow> json
     \<Rightarrow> error + json \<times> string option \<times> string option \<times> json" where
  "execute_call commands post_id rewst_engine_host interpreter_override interpreter_delimiter =
     (case post_url_of post_id rewst_engine_host of
        Inl e \<Rightarrow> Inl e
      | Inr post_url \<Rightarrow>
          Inr (commands, rewst_engine_host, interpreter_override, interpreter_delimiter))"

definition handle_commands ::
  "world \<Rightarrow> json \<Rightarrow> json \<Rightarrow> string option \<Rightarrow> string option \<Rightarrow> json \<Rightarrow> unit result" where
  "handle_commands w commands post_id rewst_engine_host interpreter_override
       interpreter_delimiter =
     (case execute_call commands post_id rewst_engine_host interpreter_override
             interpreter_delimiter of
        Inl e \<Rightarrow> ([], Inl e)
      | Inr (cs, url, ov, dl) \<Rightarrow>
          bind_result (execute_commands w cs url ov dl) (send_output w))"

section \<open>The message handler\<close>

text \<open>The arguments of one \<^verbatim>\<open>executor.submit(run_handle_commands, ...)\<close>.\<close>

record submission =
  sub_commands :: json
  sub_post_id :: json
  sub_rewst_engine_host :: "string option"
  sub_interpreter :: "string option"
  sub_interpreter_delimiter :: json

text \<open>\<^verbatim>\<open>d.get(key, default)\<close>\<close>

definition dict_get :: "(string \<times> json) list \<Rightarrow> string \<Rightarrow> json \<Rightarrow> json" where
  "dict_get kvs k d = (case map_of kvs k of None \<Rightarrow> d | Some v \<Rightarrow> v)"

text \<open>
  \<^verbatim>\<open>message_handler\<close>: the calls it submits to the executor, or the exception it raises.
  \<^verbatim>\<open>"commands" in message_data\<close> is a key test on a dictionary, a membership test on a
  list, a substring test on a string and a \<^verbatim>\<open>TypeError\<close> on anything else; only a
  dictionary can then be indexed by \<^verbatim>\<open>"commands"\<close>.
\<close>

definition message_handler :: "world \<Rightarrow> string \<Rightarrow> error + submission list" where
  "message_handler w data =
     (case json_loads w data of
        Inl e \<Rightarrow> Inl e
      | Inr message_data \<Rightarrow>
          (case message_data of
             JObject kvs \<Rightarrow>
               (case map_of kvs ''commands'' of
                  None \<Rightarrow> Inr []
                | Some commands \<Rightarrow>
                    Inr [\<lparr>sub_commands = commands,
                          sub_post_id = dict_get kvs ''post_id'' JNull,
                          sub_rewst_engine_host = None,
                          sub_interpreter = None,
                          sub_interpreter_delimiter =
                            dict_get kvs ''interpreter_delimiter'' (JString [CHR 0x0A])\<rparr>])
           | JArray xs \<Rightarrow> if JString ''commands'' \<in> set xs then Inl TypeError else Inr []
           | JString s \<Rightarrow> if contains s ''commands'' then Inl TypeError else Inr []
           | _ \<Rightarrow> Inl TypeError))"

definition run_handle_commands :: "world \<Rightarrow> submission \<Rightarrow> unit result" where
  "run_handle_commands w s =
     handle_commands w (sub_commands s) (sub_post_id s) (sub_rewst_engine_host s)
       (sub_interpreter s) (sub_interpreter_delimiter s)"

text \<open>
  One inbound message from arrival to the end of the tasks it started: the handler's
  exception, or the outcome of each submitted call in the executor.
\<close>

definition dispatch :: "world \<Rightarrow> string \<Rightarrow> error + unit result list" where
  "dispatch w data =
     (case message_handler w data of
        Inl e \<Rightarrow> Inl e
      | Inr subs \<Rightarrow> Inr (map (run_handle_commands w) subs))"

text \<open>Everything the agent did to the outside because of one inbound message.\<close>

definition dispatch_events :: "world \<Rightarrow> string \<Rightarrow> event list" where
  "dispatch_events w data =
     (case dispatch w data of Inl e \<Rightarrow> [] | Inr rs \<Rightarrow> concat (map fst rs))"

text \<open>
  The command value that a submitted call prepares before it reaches line 109, or the
  exception raised before.
\<close>

definition prepared_command :: "world \<Rightarrow> submission \<Rightarrow> error + json" where
  "prepared_command w s =
     (case execute_call (sub_commands s) (sub_post_id s) (sub_rewst_engine_host s)
             (sub_interpreter s) (sub_interpreter_delimiter s) of
        Inl e \<Rightarrow> Inl e
      | Inr (cs, url, ov, dl) \<Rightarrow> prepare_command w cs url ov)"

section \<open>The heartbeat\<close>

definition status_update_checkin_time :: nat where
  "status_update_checkin_time = 600"

text \<open>
  What the host and the transport give the heartbeat in its cycle \<open>i\<close>: the two \<^verbatim>\<open>psutil\<close>
  readings, and whether \<^verbatim>\<open>send_message\<close> delivers (\<open>False\<close>: it raises).
\<close>

record probe =
  cpu_percent :: "nat \<Rightarrow> pyfloat"
  memory_percent :: "nat \<Rightarrow> pyfloat"
  link_up :: "nat \<Rightarrow> bool"

definition status_message :: "world \<Rightarrow> probe \<Rightarrow> nat \<Rightarrow> string" where
  "status_message w p i =
     json_dumps w
       (JObject [(''cpu_usage'', JFloat (cpu_percent p i)),
                 (''memory_usage'', JFloat (memory_percent p i))])"

definition send_status_update :: "world \<Rightarrow> probe \<Rightarrow> nat \<Rightarrow> unit result" where
  "send_status_update w p i =
     (if link_up p i then ([Send (status_message w p i)], Inr ())
      else ([], Inl TransportError))"

text \<open>
  \<^verbatim>\<open>status_update_task\<close>: \<^verbatim>\<open>while True\<close> with no handler around the body. The first
  argument bounds the number of cycles looked at; \<open>None\<close> says that the loop is still
  running after that many cycles, \<open>Some e\<close> that the task has ended with the exception
  \<open>e\<close>.
\<close>

fun status_update_task :: "world \<Rightarrow> probe \<Rightarrow> nat \<Rightarrow> nat \<Rightarrow> event list \<times> error option" where
  "status_update_task w p 0 i = ([], None)"
| "status_update_task w p (Suc n) i =
     (case send_status_update w p i of
        (evs, Inl e) \<Rightarrow> (evs, Some e)
      | (evs, Inr u) \<Rightarrow>
          (case status_update_task w p n (Suc i) of
             (evs', r) \<Rightarrow> (evs @ [Sleep status_update_checkin_time] @ evs', r)))"

text \<open>The trace of \<open>k\<close> complete cycles starting with cycle \<open>i\<close>.\<close>

fun cycles :: "world \<Rightarrow> probe \<Rightarrow> nat \<Rightarrow> nat \<Rightarrow> event list" where
  "cycles w p i 0 = []"
| "cycles w p i (Suc k) =
     Send (status_message w p i) # Sleep status_update_checkin_time # cycles w p (Suc i) k"

section \<open>The JSON functions of the Python library\<close>








































section \<open>A concrete host\<close>

text \<open>
  A Linux host on which the library functions have the values that Python gives at the
  arguments listed (and a fixed answer elsewhere), every shell command prints
  \<^verbatim>\<open>hello\<close> and the transport delivers.
\<close>

definition expecting_value :: string where
  "expecting_value = ''Expecting value: line 1 column 1 (char 0)''"

definition example_loads :: "string \<Rightarrow> error + json" where
  "example_loads s =
     (if s = ''{\"status\": \"ok\"}'' then Inr (JObject [(''status'', JString ''ok'')])
      else if s = ''{\"commands\": \"echo hello\"}''
        then Inr (JObject [(''commands'', JString ''echo hello'')])
      else if s = ''{\"commands\": \"echo hello\", \"interpreter_delimiter\": \";\"}''
        then Inr (JObject [(''commands'', JString ''echo hello''),
                           (''interpreter_delimiter'', JString '';'')])
      else Inl (JSONDecodeError expecting_value))"

definition example_dumps :: "json \<Rightarrow> string" where
  "example_dumps v =
     (if v = JObject [(''error'', JString (''Error decoding command output as JSON: ''
                                           @ expecting_value)),
                      (''output'', JString ''hello'')]
        then ''{\"error\": \"Error decoding command output as JSON: ''
             @ expecting_value @ ''\", \"output\": \"hello\"}''
      else if v = JObject [(''cpu_usage'', JFloat 0x402899999999999A),
                           (''memory_usage'', JFloat 0x4046CCCCCCCCCCCD)]
        then ''{\"cpu_usage\": 12.3, \"memory_usage\": 45.6}''
      else ''null'')"

definition example_world :: world where
  "example_world =
     \<lparr>os_type = ''Linux'',
      json_loads = example_loads,
      json_dumps = example_dumps,
      py_str = (\<lambda>v. ''None''),
      str_of_global = (\<lambda>n. n),
      shell = (\<lambda>c. Inr (''hello'' @ [CHR 0x0A])),
      send_message = (\<lambda>m. True)\<rparr>"

text \<open>
  A heartbeat whose readings are 12.3 and 45.6 and whose transport is down in the cycle
  \<open>down\<close> only.
\<close>

definition example_probe :: "nat \<Rightarrow> probe" where
  "example_probe down =
     \<lparr>cpu_percent = (\<lambda>i. 0x402899999999999A),
      memory_percent = (\<lambda>i. 0x4046CCCCCCCCCCCD),
      link_up = (\<lambda>i. i \<noteq> down)\<rparr>"





section \<open>Facts shared by the proofs\<close>

text \<open>No name bound at module level is \<^verbatim>\<open>all_commands\<close>.\<close>

lemma all_commands_unbound:
  "format_global w ''all_commands'' = Inl (NameError ''all_commands'')"
  by (simp add: format_global_def module_globals_def)

text \<open>
  So \<^verbatim>\<open>execute_commands\<close> raises on every input, before it starts a process: whatever
  lines 82 to 108 raise, and otherwise the \<^verbatim>\<open>NameError\<close> of line 109.
\<close>

lemma execute_commands_raises:
  "execute_commands w commands post_url interpreter_override interpreter_delimiter =
     ([], Inl (case prepare_command w commands post_url interpreter_override of
                 Inl e \<Rightarrow> e
               | Inr command \<Rightarrow> NameError ''all_commands''))"
  by (simp add: execute_commands_def all_commands_unbound split: sum.split)

text \<open>
  The delimiter reaches \<^verbatim>\<open>execute_commands\<close> and is dropped there: no line reads it,
  whatever line 109 does.
\<close>

lemma execute_commands_delimiter:
  "execute_commands w commands post_url ov d1 = execute_commands w commands post_url ov d2"
  by (simp add: execute_commands_def)

lemma handle_commands_delimiter:
  "handle_commands w commands post_id host ov d1 =
   handle_commands w commands post_id host ov d2"
  by (simp add: handle_commands_def execute_call_def
      execute_commands_delimiter [of w commands host ov d1 d2] split: sum.split)

lemma prepared_command_delimiter:
  "prepared_command w (s\<lparr>sub_interpreter_delimiter := d\<rparr>) = prepared_command w s"
  by (simp add: prepared_command_def execute_call_def split: sum.split)

lemma run_handle_commands_delimiter:
  "run_handle_commands w (s\<lparr>sub_interpreter_delimiter := d\<rparr>) = run_handle_commands w s"
  by (simp add: run_handle_commands_def handle_commands_delimiter [of w _ _ _ _ d])

text \<open>A task that runs \<^verbatim>\<open>handle_commands\<close> ends before it has any effect.\<close>

lemma handle_commands_no_events:
  "fst (handle_commands w commands post_id host ov d) = []"
  by (simp add: handle_commands_def execute_commands_raises bind_result_def
      split: sum.split prod.split)

text \<open>
  The steps that would follow line 109, from the spawn to the end of \<^verbatim>\<open>handle_commands\<close>,
  start one process and send at most one message; they post nothing.
\<close>

lemma spawn_and_send_events:
  "fst (bind_result (create_subprocess_shell w command) (send_output w)) = [Spawn command]
   \<or> (\<exists>m. fst (bind_result (create_subprocess_shell w command) (send_output w)) =
          [Spawn command, Send m])"
  by (simp add: bind_result_def create_subprocess_shell_def send_output_def Let_def
      split: sum.split prod.split)

lemma handle_commands_never_posts:
  "HttpPost url body \<notin> set (fst (handle_commands w commands post_id host ov d))
   \<and> HttpPost url body \<notin>
       set (fst (bind_result (create_subprocess_shell w command) (send_output w)))"
  using spawn_and_send_events [of w command]
  by (auto simp add: handle_commands_no_events)

text \<open>
  Output that is valid JSON is sent as \<^verbatim>\<open>json.dumps\<close> of the value that \<^verbatim>\<open>json.loads\<close>
  gave for it.
\<close>

lemma valid_output_is_forwarded:
  assumes "json_loads w command_output = Inr v"
  shows "decode_output w command_output = Inr v
         \<and> send_output w command_output =
           (if send_message w (json_dumps w v) then ([Send (json_dumps w v)], Inr ())
            else ([], Inl TransportError))"
  using assms by (simp add: decode_output_def send_output_def)

text \<open>
  Lines 147 to 152 turn a \<^verbatim>\<open>JSONDecodeError\<close> into the dictionary of \<^verbatim>\<open>error\<close> and
  \<^verbatim>\<open>output\<close>; an exception of another class goes on unchanged and nothing is sent.
\<close>

lemma decode_output_wraps:
  assumes "json_loads w command_output = Inl (JSONDecodeError e)"
  shows "decode_output w command_output =
           Inr (JObject
                  [(''error'', JString (''Error decoding command output as JSON: '' @ e)),
                   (''output'', JString command_output)])"
  using assms by (simp add: decode_output_def)

lemma decode_output_passes_on:
  assumes "json_loads w command_output = Inl e"
    and "\<forall>t. e \<noteq> JSONDecodeError t"
  shows "decode_output w command_output = Inl e
         \<and> send_output w command_output = ([], Inl e)"
  using assms by (cases e) (simp_all add: decode_output_def send_output_def)

text \<open>The heartbeat while the transport is up, and up to the first cycle in which it is down.\<close>

lemma heartbeat_all_up:
  "(\<forall>j<n. link_up p (i + j)) \<Longrightarrow> status_update_task w p n i = (cycles w p i n, None)"
proof (induction n arbitrary: i)
  case 0
  show ?case by simp
next
  case (Suc n)
  from Suc.prems have up: "link_up p i"
    by (metis add.right_neutral zero_less_Suc)
  from Suc.prems have "\<forall>j<n. link_up p (Suc i + j)"
    by (metis Suc_less_eq add_Suc_shift)
  then have "status_update_task w p n (Suc i) = (cycles w p (Suc i) n, None)"
    by (rule Suc.IH)
  with up show ?case
    by (simp add: send_status_update_def)
qed

lemma heartbeat_first_down:
  "(\<forall>j<k. link_up p (i + j)) \<Longrightarrow> \<not> link_up p (i + k) \<Longrightarrow> k < n \<Longrightarrow>
     status_update_task w p n i = (cycles w p i k, Some TransportError)"
proof (induction k arbitrary: i n)
  case 0
  then obtain m where "n = Suc m"
    by (cases n) auto
  with 0 show ?case
    by (simp add: send_status_update_def)
next
  case (Suc k)
  from Suc.prems(3) obtain m where n: "n = Suc m" and km: "k < m"
    by (cases n) auto
  from Suc.prems(1) have up: "link_up p i"
    by (metis add.right_neutral zero_less_Suc)
  from Suc.prems(1) have rest: "\<forall>j<k. link_up p (Suc i + j)"
    by (metis Suc_less_eq add_Suc_shift)
  from Suc.prems(2) have "\<not> link_up p (Suc i + k)"
    by simp
  then have "status_update_task w p m (Suc i) = (cycles w p (Suc i) k, Some TransportError)"
    using rest km by (intro Suc.IH)
  with up n show ?case
    by (simp add: send_status_update_def)
qed

section \<open>Facts about the JSON functions\<close>

































































section \<open>The interpreter policy\<close>

text \<open>
  C5. A non-empty override is the resolved interpreter on every platform. With no
  override (\<^verbatim>\<open>None\<close> or the empty string) the platform \<^verbatim>\<open>windows\<close> resolves to
  \<^verbatim>\<open>powershell\<close>, \<^verbatim>\<open>darwin\<close> to \<^verbatim>\<open>/bin/zsh\<close> and every other platform to \<^verbatim>\<open>/bin/bash\<close>.
  \<open>resolve_interpreter\<close> is a total function of the platform and the override alone, so
  resolution cannot fail and gives the same interpreter each time.
\<close>

theorem resolve_interpreter_policy:
  "(s \<noteq> [] \<longrightarrow> resolve_interpreter platform (Some s) = s)
   \<and> (\<forall>ov \<in> {None, Some []}.
        resolve_interpreter ''windows'' ov = ''powershell''
        \<and> resolve_interpreter ''darwin'' ov = ''/bin/zsh''
        \<and> (platform \<noteq> ''windows'' \<and> platform \<noteq> ''darwin''
             \<longrightarrow> resolve_interpreter platform ov = ''/bin/bash''))"
  by (simp add: resolve_interpreter_def default_interpreter_def)

theorem resolve_interpreter_policy_witness:
  "resolve_interpreter ''linux'' (Some ''/bin/sh'') = ''/bin/sh''
   \<and> resolve_interpreter ''windows'' None = ''powershell''
   \<and> resolve_interpreter ''darwin'' (Some []) = ''/bin/zsh''
   \<and> resolve_interpreter ''linux'' None = ''/bin/bash''
   \<and> resolve_interpreter ''Windows'' None = ''/bin/bash''"
  using resolve_interpreter_policy [of "''/bin/sh''" "''linux''"]
    resolve_interpreter_policy [of "''/bin/sh''" "''Windows''"]
  by simp

section \<open>Inbound messages\<close>

text \<open>
  C6. When the inbound message decodes to a JSON object without the key \<^verbatim>\<open>commands\<close>,
  \<^verbatim>\<open>message_handler\<close> returns normally, submits nothing to the executor, and nothing is
  spawned, sent or posted because of the message.
\<close>

theorem missing_commands_is_noop:
  assumes "json_loads w data = Inr (JObject kvs)"
    and "''commands'' \<notin> fst ` set kvs"
  shows "message_handler w data = Inr [] \<and> dispatch w data = Inr []
         \<and> dispatch_events w data = []"
proof -
  from assms(2) have "map_of kvs ''commands'' = None"
    by (simp add: map_of_eq_None_iff)
  with assms(1) have "message_handler w data = Inr []"
    by (simp add: message_handler_def)
  then show ?thesis
    by (simp add: dispatch_def dispatch_events_def)
qed

theorem missing_commands_is_noop_witness:
  "message_handler example_world ''{\"status\": \"ok\"}'' = Inr []
   \<and> dispatch example_world ''{\"status\": \"ok\"}'' = Inr []
   \<and> dispatch_events example_world ''{\"status\": \"ok\"}'' = []"
proof -
  have l: "json_loads example_world ''{\"status\": \"ok\"}'' =
      Inr (JObject [(''status'', JString ''ok'')])"
    by (simp add: example_world_def example_loads_def)
  have k: "''commands'' \<notin> fst ` set [(''status'', JString ''ok'')]"
    by simp
  from missing_commands_is_noop [OF l k] show ?thesis .
qed

text \<open>
  C10. When the body of the inbound message is not valid JSON text, \<^verbatim>\<open>message_handler\<close>
  raises the \<^verbatim>\<open>JSONDecodeError\<close> of \<^verbatim>\<open>json.loads\<close>: the handler has no \<^verbatim>\<open>try\<close>, so
  whatever \<^verbatim>\<open>json.loads\<close> raises leaves it, and nothing is submitted.
\<close>

theorem invalid_message_raises:
  assumes "json_loads w data = Inl e"
  shows "message_handler w data = Inl e \<and> dispatch w data = Inl e"
  using assms by (simp add: message_handler_def dispatch_def)

theorem invalid_message_raises_witness:
  "message_handler example_world ''not json'' = Inl (JSONDecodeError expecting_value)
   \<and> dispatch example_world ''not json'' = Inl (JSONDecodeError expecting_value)"
proof -
  have l: "json_loads example_world ''not json'' = Inl (JSONDecodeError expecting_value)"
    by (simp add: example_world_def example_loads_def)
  from invalid_message_raises [OF l] show ?thesis .
qed

text \<open>
  C9. Two inbound messages that decode to objects with the same value (or none) under
  every key but \<^verbatim>\<open>interpreter_delimiter\<close> prepare the same command, and their tasks have
  the same outcome and the same effects: the delimiter is handed on and never read.
\<close>

theorem interpreter_delimiter_ignored:
  assumes "json_loads w data1 = Inr (JObject kvs1)"
    and "json_loads w data2 = Inr (JObject kvs2)"
    and "\<forall>k. k \<noteq> ''interpreter_delimiter'' \<longrightarrow> map_of kvs1 k = map_of kvs2 k"
  shows "map_sum id (map (prepared_command w)) (message_handler w data1) =
         map_sum id (map (prepared_command w)) (message_handler w data2)
         \<and> dispatch w data1 = dispatch w data2
         \<and> dispatch_events w data1 = dispatch_events w data2"
proof -
  from assms(3) have c: "map_of kvs1 ''commands'' = map_of kvs2 ''commands''"
    and p: "map_of kvs1 ''post_id'' = map_of kvs2 ''post_id''"
    by simp_all
  show ?thesis
  proof (cases "map_of kvs2 ''commands''")
    case None
    with c assms(1,2)
    have "message_handler w data1 = Inr []" "message_handler w data2 = Inr []"
      by (simp_all add: message_handler_def)
    then show ?thesis
      by (simp add: dispatch_def dispatch_events_def)
  next
    case (Some cmds)
    define s where "s = \<lparr>sub_commands = cmds, sub_post_id = dict_get kvs2 ''post_id'' JNull,
      sub_rewst_engine_host = None, sub_interpreter = None,
      sub_interpreter_delimiter = JNull\<rparr>"
    have m1: "message_handler w data1 =
        Inr [s\<lparr>sub_interpreter_delimiter :=
                 dict_get kvs1 ''interpreter_delimiter'' (JString [CHR 0x0A])\<rparr>]"
      using Some c p assms(1) by (simp add: message_handler_def s_def dict_get_def)
    have m2: "message_handler w data2 =
        Inr [s\<lparr>sub_interpreter_delimiter :=
                 dict_get kvs2 ''interpreter_delimiter'' (JString [CHR 0x0A])\<rparr>]"
      using Some assms(2) by (simp add: message_handler_def s_def dict_get_def)
    show ?thesis
      by (simp add: m1 m2 dispatch_def dispatch_events_def prepared_command_delimiter
          run_handle_commands_delimiter)
  qed
qed

theorem interpreter_delimiter_ignored_witness:
  "map_sum id (map (prepared_command example_world))
     (message_handler example_world ''{\"commands\": \"echo hello\"}'') =
   map_sum id (map (prepared_command example_world))
     (message_handler example_world
        ''{\"commands\": \"echo hello\", \"interpreter_delimiter\": \";\"}'')
   \<and> dispatch example_world ''{\"commands\": \"echo hello\"}'' =
     dispatch example_world ''{\"commands\": \"echo hello\", \"interpreter_delimiter\": \";\"}''
   \<and> dispatch_events example_world ''{\"commands\": \"echo hello\"}'' =
     dispatch_events example_world
       ''{\"commands\": \"echo hello\", \"interpreter_delimiter\": \";\"}''"
proof -
  have l1: "json_loads example_world ''{\"commands\": \"echo hello\"}'' =
      Inr (JObject [(''commands'', JString ''echo hello'')])"
    by (simp add: example_world_def example_loads_def)
  have l2: "json_loads example_world
        ''{\"commands\": \"echo hello\", \"interpreter_delimiter\": \";\"}'' =
      Inr (JObject [(''commands'', JString ''echo hello''),
                    (''interpreter_delimiter'', JString '';'')])"
    by (simp add: example_world_def example_loads_def)
  have d: "\<forall>k. k \<noteq> ''interpreter_delimiter'' \<longrightarrow>
      map_of [(''commands'', JString ''echo hello'')] k =
      map_of [(''commands'', JString ''echo hello''),
              (''interpreter_delimiter'', JString '';'')] k"
    by simp
  from interpreter_delimiter_ignored [OF l1 l2 d] show ?thesis .
qed

section \<open>Command execution\<close>

text \<open>
  C1. On the example host, with the override \<^verbatim>\<open>/bin/sh\<close> lines 82 to 108 prepare the
  command \<^verbatim>\<open>/bin/sh -c "echo hello"\<close>, and with no override the command text as it is;
  in both cases \<^verbatim>\<open>execute_commands\<close> then raises \<^verbatim>\<open>NameError\<close> for \<^verbatim>\<open>all_commands\<close> at line
  109 and starts no process.
\<close>

theorem execute_commands_name_error:
  "prepare_command example_world (JString ''echo hello'') None (Some ''/bin/sh'') =
     Inr (JString ''/bin/sh -c \"echo hello\"'')
   \<and> execute_commands example_world (JString ''echo hello'') None (Some ''/bin/sh'')
       (JString [CHR 0x0A]) = ([], Inl (NameError ''all_commands''))
   \<and> prepare_command example_world (JString ''echo hello'') None None =
     Inr (JString ''echo hello'')
   \<and> execute_commands example_world (JString ''echo hello'') None None
       (JString [CHR 0x0A]) = ([], Inl (NameError ''all_commands''))"
  by (simp add: execute_commands_raises prepare_command_def resolve_interpreter_def
      default_interpreter_def with_preamble_def framed_command_def truthy_opt_def
      format_value_def example_world_def)

text \<open>
  C2. For the call \<^verbatim>\<open>handle_commands("Get-Date", "abc:123", "h.example.com",
  "powershell")\<close> the callback URL of line 144 is
  \<^verbatim>\<open>https://h.example.com/webhooks/custom/action/abc/123\<close>, but the preamble in the
  prepared command binds \<^verbatim>\<open>$post_url\<close> to the engine host \<^verbatim>\<open>h.example.com\<close>.
\<close>

theorem preamble_binds_engine_host:
  "post_url_of (JString ''abc:123'') (Some ''h.example.com'') =
     Inr (Some ''https://h.example.com/webhooks/custom/action/abc/123'')
   \<and> prepared_command example_world
       \<lparr>sub_commands = JString ''Get-Date'', sub_post_id = JString ''abc:123'',
        sub_rewst_engine_host = Some ''h.example.com'', sub_interpreter = Some ''powershell'',
        sub_interpreter_delimiter = JString [CHR 0x0A]\<rparr> =
     Inr (JString
       (''powershell -c \"[Net.ServicePointManager]::SecurityProtocol = ''
        @ ''[Net.SecurityProtocolType]::Tls12'' @ [CHR 0x0A]
        @ ''$post_url = '' @ [CHR 0x27] @ ''h.example.com'' @ [CHR 0x27, CHR 0x0A]
        @ ''Get-Date\"''))"
  by (simp add: prepared_command_def execute_call_def post_url_of_def prepare_command_def
      resolve_interpreter_def with_preamble_def preamble_def framed_command_def
      truthy_opt_def format_value_def format_opt_def replace_char_def)

text \<open>
  C3. For the call \<^verbatim>\<open>handle_commands("echo hello", "abc:123", "h.example.com")\<close> on the
  example host the task ends with the \<^verbatim>\<open>NameError\<close> and posts nothing; and the steps that
  would follow line 109 (run the command, decode its output, report it) send the result
  over the IoT Hub client and post nothing either.
\<close>

theorem result_is_sent_not_posted:
  "handle_commands example_world (JString ''echo hello'') (JString ''abc:123'')
     (Some ''h.example.com'') None (JString [CHR 0x0A]) =
     ([], Inl (NameError ''all_commands''))
   \<and> bind_result (create_subprocess_shell example_world ''/bin/bash -c \"echo hello\"'')
       (send_output example_world) =
     ([Spawn ''/bin/bash -c \"echo hello\"'',
       Send (''{\"error\": \"Error decoding command output as JSON: ''
             @ expecting_value @ ''\", \"output\": \"hello\"}'')], Inr ())"
  apply (simp add: handle_commands_def execute_call_def post_url_of_def
      execute_commands_raises prepare_command_def resolve_interpreter_def
      default_interpreter_def with_preamble_def bind_result_def)
  apply (simp add: create_subprocess_shell_def send_output_def decode_output_def strip_def
      is_space_def example_world_def example_loads_def example_dumps_def)
  done

section \<open>Command output\<close>

text \<open>
  C4. The message \<^verbatim>\<open>{"commands": "echo hello"}\<close> on the example host asks for a command
  whose output \<^verbatim>\<open>hello\<close> is not valid JSON text. Lines 147 to 152 would turn that output
  into the dictionary of \<^verbatim>\<open>error\<close> and \<^verbatim>\<open>output\<close>, but the task that the message starts
  ends with the \<^verbatim>\<open>NameError\<close> of line 109: no process is started and nothing is delivered.
\<close>

theorem parse_failure_not_delivered:
  "dispatch example_world ''{\"commands\": \"echo hello\"}'' =
     Inr [([], Inl (NameError ''all_commands''))]
   \<and> dispatch_events example_world ''{\"commands\": \"echo hello\"}'' = []
   \<and> handle_commands example_world (JString ''echo hello'') JNull None None
       (JString [CHR 0x0A]) = ([], Inl (NameError ''all_commands''))
   \<and> decode_output example_world ''hello'' =
     Inr (JObject [(''error'', JString (''Error decoding command output as JSON: ''
                                        @ expecting_value)),
                   (''output'', JString ''hello'')])"
proof -
  have h: "handle_commands example_world (JString ''echo hello'') JNull None None
       (JString [CHR 0x0A]) = ([], Inl (NameError ''all_commands''))"
    by (simp add: handle_commands_def execute_call_def post_url_of_def
        execute_commands_raises prepare_command_def resolve_interpreter_def
        default_interpreter_def with_preamble_def bind_result_def example_world_def)
  have m: "message_handler example_world ''{\"commands\": \"echo hello\"}'' =
      Inr [\<lparr>sub_commands = JString ''echo hello'', sub_post_id = JNull,
             sub_rewst_engine_host = None, sub_interpreter = None,
             sub_interpreter_delimiter = JString [CHR 0x0A]\<rparr>]"
    by (simp add: message_handler_def dict_get_def example_world_def example_loads_def)
  have d: "dispatch example_world ''{\"commands\": \"echo hello\"}'' =
      Inr [([], Inl (NameError ''all_commands''))]"
    by (simp add: dispatch_def m run_handle_commands_def h)
  have o: "decode_output example_world ''hello'' =
     Inr (JObject [(''error'', JString (''Error decoding command output as JSON: ''
                                        @ expecting_value)),
                   (''output'', JString ''hello'')])"
    by (simp add: decode_output_def example_world_def example_loads_def)
  from d h o show ?thesis
    by (simp add: dispatch_events_def)
qed




section \<open>The heartbeat loop\<close>

text \<open>
  C8, as the code has it. While every send succeeds the loop goes on: after \<open>n\<close> cycles
  it has sent \<open>n\<close> samples, each followed by a sleep of 600 seconds, and is still running.
  The first cycle \<open>k\<close> whose send fails ends the task with the transport's exception: the
  \<open>k\<close> cycles before it are complete, and no later cycle occurs however many are looked
  at.
\<close>

theorem heartbeat_ends_at_first_failure:
  "((\<forall>j<n. link_up p (i + j)) \<longrightarrow> status_update_task w p n i = (cycles w p i n, None))
   \<and> ((\<forall>j<k. link_up p (i + j)) \<and> \<not> link_up p (i + k) \<and> k < n \<longrightarrow>
        status_update_task w p n i = (cycles w p i k, Some TransportError))"
  using heartbeat_all_up [of n p i w] heartbeat_first_down [of k p i n w] by blast

theorem heartbeat_ends_at_first_failure_witness:
  "status_update_task example_world (example_probe 5) 3 0 =
     (cycles example_world (example_probe 5) 0 3, None)
   \<and> status_update_task example_world (example_probe 2) 5 0 =
     (cycles example_world (example_probe 2) 0 2, Some TransportError)"
proof -
  have a: "\<forall>j<3. link_up (example_probe 5) (0 + j)"
    by (simp add: example_probe_def)
  have b: "(\<forall>j<2. link_up (example_probe 2) (0 + j)) \<and> \<not> link_up (example_probe 2) (0 + 2)
      \<and> (2::nat) < 5"
    by (simp add: example_probe_def)
  from a heartbeat_ends_at_first_failure [of 3 "example_probe 5" 0 example_world 0]
  have "status_update_task example_world (example_probe 5) 3 0 =
     (cycles example_world (example_probe 5) 0 3, None)"
    by blast
  moreover from b heartbeat_ends_at_first_failure [of 5 "example_probe 2" 0 example_world 2]
  have "status_update_task example_world (example_probe 2) 5 0 =
     (cycles example_world (example_probe 2) 0 2, Some TransportError)"
    by blast
  ultimately show ?thesis by simp
qed

text \<open>
  C8, as the claim has it, fails: with the transport down in cycle 1 only and five cycles
  looked at, the task has ended with the exception after the send and the sleep of cycle
  0; cycles 2 to 4 do not occur.
\<close>

theorem heartbeat_failure_counterexample:
  "\<not> link_up (example_probe 1) 1
   \<and> status_update_task example_world (example_probe 1) 5 0 =
     ([Send ''{\"cpu_usage\": 12.3, \"memory_usage\": 45.6}'', Sleep 600],
      Some TransportError)"
  by (simp add: example_probe_def eval_nat_numeral send_status_update_def
      status_message_def example_world_def example_dumps_def status_update_checkin_time_def)

end
